theory Spec2Isabelle
  imports Complex_Main
begin

section \<open>EverCart: the cart and order handlers of the Express server\<close>

text \<open>
  The server keeps four MongoDB collections (products, users, carts, orders) and answers
  each HTTP request with a status code and a JSON body. The handlers are embedded as
  functions from the database and the fields of the request to the new database and the
  response. Conventions of the embedding:

  \<^item> a JavaScript \<^verbatim>\<open>Number\<close> is a \<^typ>\<open>real\<close>, and every \<^verbatim>\<open>+\<close>, \<^verbatim>\<open>*\<close> and \<^verbatim>\<open>/\<close> of the source
    rounds its exact result to the nearest IEEE-754 double (\<open>fadd\<close>, \<open>fmul\<close>, \<open>fdiv\<close> below);
    a result that overflows to \<^verbatim>\<open>Infinity\<close>, and \<^verbatim>\<open>NaN\<close>, are outside the model;
  \<^item> a string field of a request body is a \<^typ>\<open>string option\<close>, \<open>None\<close> for a field that is
    absent; JavaScript's \<^verbatim>\<open>!x\<close> holds for an absent field and for the empty string;
  \<^item> an ObjectId is a natural number; a request field that must hold one is an option,
    \<open>None\<close> for a field that is absent (or, for a route parameter, one that
    \<^verbatim>\<open>ObjectId.isValid\<close> refuses); a body whose product id is present but is not a
    well-formed ObjectId is outside the model;
  \<^item> an exception thrown inside a handler's \<^verbatim>\<open>try\<close> block is a value \<open>Inl e\<close>, turned
    into the 500 response of the handler's \<^verbatim>\<open>catch\<close> block;
  \<^item> the validators the Mongoose schemas declare (\<^verbatim>\<open>required\<close>, \<^verbatim>\<open>min\<close>, \<^verbatim>\<open>enum\<close>) run when a
    document is saved or created, and throw when they fail;
  \<^item> Mongoose's bookkeeping fields (\<^verbatim>\<open>createdAt\<close>, \<^verbatim>\<open>updatedAt\<close>, \<^verbatim>\<open>__v\<close>) are left out;
  \<^item> \<^verbatim>\<open>findByIdAndUpdate\<close> on a product or a user receives an update document whose absent
    fields are \<^verbatim>\<open>undefined\<close>; what Mongoose does with those depends on its version, which the
    sources do not fix, so the two routes that call it take the operation as an argument.
\<close>

subsection \<open>Documents\<close>

type_synonym objectId = nat

text \<open>\<^verbatim>\<open>productSchema\<close>\<close>

record product =
  name :: string
  category :: string
  price :: real
  brand :: string
  rating :: real
  availability :: bool
  description :: string
  image :: string

text \<open>
  \<^verbatim>\<open>userSchema\<close>; the \<^verbatim>\<open>_id\<close> and the name of a user are the fields \<open>user_id\<close> and
  \<open>user_name\<close>.
\<close>

record user =
  user_id :: objectId
  user_name :: string
  email :: string
  password :: string
  role :: string

text \<open>An element of \<^verbatim>\<open>cartSchema.items\<close>.\<close>

record cart_item =
  productId :: objectId
  quantity :: real

text \<open>
  An element of \<^verbatim>\<open>orderSchema.items\<close>: the snapshot of a product. Its \<^verbatim>\<open>productId\<close>,
  \<^verbatim>\<open>quantity\<close> and \<^verbatim>\<open>price\<close> carry the prefix \<open>item_\<close>.
\<close>

record order_item =
  item_productId :: objectId
  productName :: string
  productImage :: string
  item_quantity :: real
  item_price :: real

text \<open>
  \<^verbatim>\<open>orderSchema.deliveryAddress\<close>. A sub-field that the request leaves out is the empty
  string here: the handler and the schema's \<^verbatim>\<open>required\<close> refuse both alike.
\<close>

record delivery_address =
  fullName :: string
  address :: string
  city :: string
  state :: string
  zipCode :: string
  phone :: string

text \<open>\<^verbatim>\<open>orderSchema\<close>; \<^verbatim>\<open>userEmail\<close> and \<^verbatim>\<open>items\<close> carry the prefix \<open>order_\<close>.\<close>

record order =
  order_userEmail :: string
  order_items :: "order_item list"
  totalAmount :: real
  status :: string
  deliveryAddress :: delivery_address
  paymentMethod :: string
  orderDate :: nat

text \<open>
  The database. A cart document is a pair of \<^verbatim>\<open>userEmail\<close> and \<^verbatim>\<open>items\<close>, and the handlers
  reach it by \<^verbatim>\<open>Cart.findOne({ userEmail })\<close> only, so the collection is the map from the
  e-mail to the items. The users are the list of their documents. Orders are never
  deleted: the collection is the list of the documents in the order of their creation, and
  the \<^verbatim>\<open>_id\<close> of an order is its position.
\<close>

record db =
  products :: "objectId \<rightharpoonup> product"
  users :: "user list"
  carts :: "string \<rightharpoonup> cart_item list"
  orders :: "order list"

subsection \<open>Responses and exceptions\<close>

text \<open>
  \<open>Json c m\<close> is \<^verbatim>\<open>res.status(c).json({ message: m })\<close>, \<open>JsonOrder c m o\<close> carries an
  \<^verbatim>\<open>order\<close> as well, and \<open>JsonCleared m p n\<close> is the answer of the clear route with its
  \<^verbatim>\<open>previousItemCount\<close> and (when present) \<^verbatim>\<open>newItemCount\<close>, sent with status 200.
  \<open>JsonProduct c m i p\<close> carries the product \<open>p\<close> with \<^verbatim>\<open>_id\<close> \<open>i\<close>, \<open>JsonUser c m u\<close> a user
  (whose password the route leaves out of the answer); \<open>JsonDeletedProduct m i n\<close> and
  \<open>JsonDeletedUser m i n e\<close> carry the id, the name and the e-mail of the deleted document,
  with status 200.
\<close>

datatype response =
    Json nat string
  | JsonOrder nat string order
  | JsonCleared string nat "nat option"
  | JsonProduct nat string objectId product
  | JsonDeletedProduct string objectId string
  | JsonUser nat string user
  | JsonDeletedUser string objectId string string

fun statusCode :: "response \<Rightarrow> nat" where
  "statusCode (Json c m) = c"
| "statusCode (JsonOrder c m ord) = c"
| "statusCode (JsonCleared m p n) = 200"
| "statusCode (JsonProduct c m i p) = c"
| "statusCode (JsonDeletedProduct m i n) = 200"
| "statusCode (JsonUser c m u) = c"
| "statusCode (JsonDeletedUser m i n e) = 200"

text \<open>
  What a handler's \<^verbatim>\<open>try\<close> block can throw: a \<^verbatim>\<open>TypeError\<close> of JavaScript, a validation
  error of Mongoose, and the duplicate key error of MongoDB (\<^verbatim>\<open>error.code === 11000\<close>).
\<close>

datatype error = TypeError | ValidationError | DuplicateKey

definition falsy :: "string option \<Rightarrow> bool" where
  "falsy v = (case v of None \<Rightarrow> True | Some s \<Rightarrow> s = [])"

text \<open>\<^verbatim>\<open>!x\<close> for a number field: it is absent, or it is 0.\<close>

definition falsy_num :: "real option \<Rightarrow> bool" where
  "falsy_num v = (case v of None \<Rightarrow> True | Some x \<Rightarrow> x = 0)"

text \<open>\<^verbatim>\<open>String.prototype.toLowerCase\<close>, on ASCII letters.\<close>

definition lower_char :: "char \<Rightarrow> char" where
  "lower_char c =
     (let n = (of_char c :: nat) in if 65 \<le> n \<and> n \<le> 90 then char_of (n + 32) else c)"

definition toLowerCase :: "string \<Rightarrow> string" where
  "toLowerCase s = map lower_char s"

text \<open>\<^verbatim>\<open>String.prototype.trim\<close>, for the white space of ASCII.\<close>

definition is_space :: "char \<Rightarrow> bool" where
  "is_space c = (let n = (of_char c :: nat) in (9 \<le> n \<and> n \<le> 13) \<or> n = 32)"

definition trim :: "string \<Rightarrow> string" where
  "trim s = rev (dropWhile is_space (rev (dropWhile is_space s)))"

text \<open>\<^verbatim>\<open>Array.prototype.findIndex\<close>: \<open>None\<close> stands for -1.\<close>

fun findIndex :: "('a \<Rightarrow> bool) \<Rightarrow> 'a list \<Rightarrow> nat option" where
  "findIndex P [] = None"
| "findIndex P (x # xs) = (if P x then Some 0 else map_option Suc (findIndex P xs))"


text \<open>\<^verbatim>\<open>Math.round\<close>: the nearest integer, a half rounded up.\<close>

definition Math_round :: "real \<Rightarrow> int" where
  "Math_round x = \<lfloor>x + 1 / 2\<rfloor>"

subsection \<open>Double-precision arithmetic\<close>

text \<open>
  \<open>fl x\<close> is the IEEE-754 binary64 number nearest to \<open>x\<close>, a tie going to the even
  significand. The exponent \<open>e\<close> of \<open>x\<close> is the largest one from 1023 down to -1022 with
  \<open>pow2 e \<le> \<bar>x\<bar>\<close>, and -1022 when there is none (\<open>x\<close> is subnormal); the doubles around \<open>x\<close>
  are the multiples of \<open>pow2 (e - 52)\<close>. The operators of JavaScript compute the exact
  result and round it.
\<close>

definition pow2 :: "int \<Rightarrow> real" where
  "pow2 e = (if 0 \<le> e then 2 ^ nat e else 1 / 2 ^ nat (- e))"

definition round_even :: "real \<Rightarrow> int" where
  "round_even x =
     (let f = \<lfloor>x\<rfloor>; d = x - real_of_int f
      in if d < 1 / 2 then f else if 1 / 2 < d then f + 1 else if even f then f else f + 1)"

fun exponent_search :: "nat \<Rightarrow> int \<Rightarrow> real \<Rightarrow> int" where
  "exponent_search 0 e x = e"
| "exponent_search (Suc n) e x = (if pow2 e \<le> x then e else exponent_search n (e - 1) x)"

definition exponent :: "real \<Rightarrow> int" where
  "exponent x = exponent_search 2045 1023 \<bar>x\<bar>"

definition fl :: "real \<Rightarrow> real" where
  "fl x =
     (if x = 0 then 0
      else let u = pow2 (exponent x - 52) in real_of_int (round_even (x / u)) * u)"

definition fadd :: "real \<Rightarrow> real \<Rightarrow> real" where
  "fadd a b = fl (a + b)"

definition fmul :: "real \<Rightarrow> real \<Rightarrow> real" where
  "fmul a b = fl (a * b)"

definition fdiv :: "real \<Rightarrow> real \<Rightarrow> real" where
  "fdiv a b = fl (a / b)"

subsection \<open>Finding, saving and creating documents\<close>

text \<open>\<^verbatim>\<open>User.findOne({ email: x })\<close>: the first user with that e-mail.\<close>

definition User_findOne :: "db \<Rightarrow> string \<Rightarrow> user option" where
  "User_findOne s x = find (\<lambda>u. email u = x) (users s)"

text \<open>\<^verbatim>\<open>User.findById(id)\<close>\<close>

definition User_findById :: "db \<Rightarrow> objectId \<Rightarrow> user option" where
  "User_findById s i = find (\<lambda>u. user_id u = i) (users s)"

text \<open>
  \<^verbatim>\<open>cart.save()\<close> runs the validators of \<^verbatim>\<open>cartSchema\<close>: \<^verbatim>\<open>userEmail\<close> is required and every
  item's \<^verbatim>\<open>quantity\<close> has \<^verbatim>\<open>min: 1\<close>.
\<close>

definition Cart_validate :: "string \<Rightarrow> cart_item list \<Rightarrow> bool" where
  "Cart_validate e its = (e \<noteq> [] \<and> list_all (\<lambda>it. 1 \<le> quantity it) its)"

definition Cart_save :: "db \<Rightarrow> string \<Rightarrow> cart_item list \<Rightarrow> error + db" where
  "Cart_save s e its =
     (if Cart_validate e its then Inr (s\<lparr>carts := (carts s)(e \<mapsto> its)\<rparr>)
      else Inl ValidationError)"

definition validStatuses :: "string list" where
  "validStatuses = [''pending'', ''processing'', ''shipped'', ''delivered'', ''cancelled'']"

definition paymentMethods :: "string list" where
  "paymentMethods = [''card'', ''cash_on_delivery'', ''upi'']"

text \<open>The validators of \<^verbatim>\<open>orderSchema\<close>.\<close>

definition Order_item_validate :: "order_item \<Rightarrow> bool" where
  "Order_item_validate it =
     (productName it \<noteq> [] \<and> productImage it \<noteq> [] \<and> 1 \<le> item_quantity it \<and> 0 \<le> item_price it)"

definition Address_validate :: "delivery_address \<Rightarrow> bool" where
  "Address_validate a =
     (fullName a \<noteq> [] \<and> address a \<noteq> [] \<and> city a \<noteq> [] \<and> state a \<noteq> [] \<and>
      zipCode a \<noteq> [] \<and> phone a \<noteq> [])"

definition Order_validate :: "order \<Rightarrow> bool" where
  "Order_validate ord =
     (order_userEmail ord \<noteq> [] \<and>
      list_all Order_item_validate (order_items ord) \<and>
      0 \<le> totalAmount ord \<and>
      List.member validStatuses (status ord) \<and>
      Address_validate (deliveryAddress ord) \<and>
      List.member paymentMethods (paymentMethod ord))"

text \<open>\<^verbatim>\<open>Order.create(doc)\<close>: validate, then insert; the new document is returned.\<close>

definition Order_create :: "db \<Rightarrow> order \<Rightarrow> error + (db \<times> order)" where
  "Order_create s ord =
     (if Order_validate ord then Inr (s\<lparr>orders := orders s @ [ord]\<rparr>, ord)
      else Inl ValidationError)"

text \<open>
  The validators of \<^verbatim>\<open>productSchema\<close>, and \<^verbatim>\<open>Product.create(doc)\<close>: the schema trims the name,
  the category and the brand, the document is validated and inserted under a new
  \<^verbatim>\<open>_id\<close>, which the caller of the model supplies; an \<^verbatim>\<open>_id\<close> that is in use is a duplicate
  key.
\<close>

definition Product_validate :: "product \<Rightarrow> bool" where
  "Product_validate p =
     (name p \<noteq> [] \<and> category p \<noteq> [] \<and> 0 \<le> price p \<and> brand p \<noteq> [] \<and>
      0 \<le> rating p \<and> rating p \<le> 5 \<and> description p \<noteq> [] \<and> image p \<noteq> [])"

definition Product_create :: "objectId \<Rightarrow> db \<Rightarrow> product \<Rightarrow> error + (db \<times> product)" where
  "Product_create newId s doc =
     (let p = doc\<lparr>name := trim (name doc), category := trim (category doc),
                   brand := trim (brand doc)\<rparr>
      in if \<not> Product_validate p then Inl ValidationError
         else if products s newId \<noteq> None then Inl DuplicateKey
         else Inr (s\<lparr>products := (products s)(newId \<mapsto> p)\<rparr>, p))"

subsection \<open>The cart routes\<close>

text \<open>
  \<^verbatim>\<open>POST /api/cart/add\<close>. \<^verbatim>\<open>quantity || 1\<close> is 1 when the field is absent and also when it is
  0, the one falsy number a JSON body can hold.
\<close>

definition post_cart_add ::
  "db \<Rightarrow> string option \<Rightarrow> objectId option \<Rightarrow> real option \<Rightarrow> db \<times> response" where
  "post_cart_add s userEmail productId' quantity' =
     (case (userEmail, productId') of
        (Some e, Some p) \<Rightarrow>
          if e = [] then (s, Json 400 ''User email and product ID are required'')
          else
            let quantityToAdd = (case quantity' of None \<Rightarrow> 1 | Some q \<Rightarrow> if q = 0 then 1 else q)
            in if quantityToAdd \<le> 0 then (s, Json 400 ''Quantity must be greater than 0'')
            else
              let cart = (case carts s e of None \<Rightarrow> [] | Some its \<Rightarrow> its);
                  cart' =
                    (case findIndex (\<lambda>it. productId it = p) cart of
                       Some i \<Rightarrow>
                         cart[i := (cart ! i)\<lparr>quantity := fadd (quantity (cart ! i)) quantityToAdd\<rparr>]
                     | None \<Rightarrow> cart @ [\<lparr>productId = p, quantity = quantityToAdd\<rparr>])
              in (case Cart_save s e cart' of
                    Inl err \<Rightarrow> (s, Json 500 ''Failed to add product to cart'')
                  | Inr s' \<Rightarrow> (s', Json 200 ''Product added to cart successfully''))
      | _ \<Rightarrow> (s, Json 400 ''User email and product ID are required''))"




subsection \<open>Checkout\<close>

text \<open>
  \<^verbatim>\<open>.populate('items.productId')\<close> replaces each item's product reference by the product
  document, or by \<^verbatim>\<open>null\<close> when no product has that id. A populated item is the pair of
  that document (with its \<^verbatim>\<open>_id\<close>) and the quantity.
\<close>

type_synonym populated_item = "(objectId \<times> product) option \<times> real"

definition populate :: "db \<Rightarrow> cart_item list \<Rightarrow> populated_item list" where
  "populate s its =
     map (\<lambda>it. (map_option (\<lambda>p. (productId it, p)) (products s (productId it)), quantity it)) its"

text \<open>
  The callback of \<^verbatim>\<open>cart.items.map\<close> with its running \<^verbatim>\<open>totalAmount\<close>: reading
  \<^verbatim>\<open>item.productId.price\<close> of a \<^verbatim>\<open>null\<close> product throws a \<^verbatim>\<open>TypeError\<close>.
\<close>

fun orderItems :: "real \<Rightarrow> populated_item list \<Rightarrow> error + (real \<times> order_item list)" where
  "orderItems totalAmount' [] = Inr (totalAmount', [])"
| "orderItems totalAmount' ((None, q) # its) = Inl TypeError"
| "orderItems totalAmount' ((Some (i, p), q) # its) =
     (let itemTotal = fmul (price p) q in
      case orderItems (fadd totalAmount' itemTotal) its of
        Inl err \<Rightarrow> Inl err
      | Inr (t, rest) \<Rightarrow>
          Inr (t, \<lparr>item_productId = i, productName = name p, productImage = image p,
                   item_quantity = q, item_price = price p\<rparr> # rest))"

text \<open>
  \<^verbatim>\<open>POST /api/orders\<close>. \<open>now\<close> is the value of \<^verbatim>\<open>Date.now\<close>, the default of \<^verbatim>\<open>orderDate\<close>.
\<close>

definition post_orders ::
  "nat \<Rightarrow> db \<Rightarrow> string option \<Rightarrow> delivery_address option \<Rightarrow> string option \<Rightarrow> db \<times> response" where
  "post_orders now s userEmail deliveryAddress' paymentMethod' =
     (case (userEmail, deliveryAddress', paymentMethod') of
        (Some e, Some a, Some pm) \<Rightarrow>
          if e = [] \<or> pm = [] then
            (s, Json 400 ''User email, delivery address, and payment method are required'')
          else if fullName a = [] \<or> address a = [] \<or> city a = [] \<or> state a = [] \<or>
                  zipCode a = [] \<or> phone a = [] then
            (s, Json 400 ''Complete delivery address is required'')
          else
            (case carts s e of
               None \<Rightarrow> (s, Json 400 ''Cart is empty'')
             | Some cart \<Rightarrow>
                 if length cart = 0 then (s, Json 400 ''Cart is empty'')
                 else
                   (case orderItems 0 (populate s cart) of
                      Inl err \<Rightarrow> (s, Json 500 ''Failed to create order'')
                    | Inr (t, its) \<Rightarrow>
                        (case Order_create s
                                \<lparr>order_userEmail = e, order_items = its,
                                 totalAmount = fdiv (real_of_int (Math_round (fmul t 100))) 100,
                                 status = ''pending'', deliveryAddress = a,
                                 paymentMethod = pm, orderDate = now\<rparr> of
                           Inl err \<Rightarrow> (s, Json 500 ''Failed to create order'')
                         | Inr (s1, ord) \<Rightarrow>
                             (case Cart_save s1 e [] of
                                Inl err \<Rightarrow> (s1, Json 500 ''Failed to create order'')
                              | Inr s2 \<Rightarrow> (s2, JsonOrder 201 ''Order placed successfully'' ord)))))
      | _ \<Rightarrow> (s, Json 400 ''User email, delivery address, and payment method are required''))"

subsection \<open>The admin gate and the order status route\<close>

text \<open>
  The middleware \<^verbatim>\<open>checkAdmin\<close>: \<open>Inl r\<close> when it answers the request itself, \<open>Inr u\<close> when it
  attaches the user \<open>u\<close> to the request and calls \<^verbatim>\<open>next()\<close>.
\<close>

definition checkAdmin :: "db \<Rightarrow> string option \<Rightarrow> response + user" where
  "checkAdmin s email' =
     (if falsy email' then Inl (Json 400 ''Email is required for admin verification'')
      else
        (case User_findOne s (toLowerCase (the email')) of
           None \<Rightarrow> Inl (Json 404 ''User not found'')
         | Some u \<Rightarrow>
             if role u \<noteq> ''admin'' then Inl (Json 403 ''Admin access required'')
             else Inr u))"

text \<open>
  \<^verbatim>\<open>PUT /api/admin/orders/:id\<close>. The route does not go through \<^verbatim>\<open>checkAdmin\<close>: it looks the
  user up itself, with \<^verbatim>\<open>email?.toLowerCase()\<close>, which finds no user when the e-mail is
  absent. \<^verbatim>\<open>findByIdAndUpdate(id, { status })\<close> sets the one field of the order with that id.
  The answer carries the updated order (its product references populated for display,
  which the model leaves out).
\<close>

definition put_admin_orders ::
  "db \<Rightarrow> objectId option \<Rightarrow> string option \<Rightarrow> string \<Rightarrow> db \<times> response" where
  "put_admin_orders s id' email' status' =
     (case id' of
        None \<Rightarrow> (s, Json 400 ''Invalid order ID format'')
      | Some i \<Rightarrow>
          (case (case email' of None \<Rightarrow> None | Some e \<Rightarrow> User_findOne s (toLowerCase e)) of
             None \<Rightarrow> (s, Json 403 ''Admin access required'')
           | Some u \<Rightarrow>
               if role u \<noteq> ''admin'' then (s, Json 403 ''Admin access required'')
               else if \<not> List.member validStatuses status' then
                 (s, Json 400 ''Invalid order status'')
               else if i < length (orders s) then
                 (let updatedOrder = (orders s ! i)\<lparr>status := status'\<rparr>
                  in (s\<lparr>orders := (orders s)[i := updatedOrder]\<rparr>,
                      JsonOrder 200 ''Order status updated successfully'' updatedOrder))
               else (s, Json 404 ''Order not found'')))"

subsection \<open>The admin routes for products and users\<close>

text \<open>
  The fields of a product in a request body, and the update document that the update
  route builds from them; \<open>None\<close> is a field that is absent (\<^verbatim>\<open>undefined\<close>).
\<close>

record product_fields =
  f_name :: "string option"
  f_category :: "string option"
  f_price :: "real option"
  f_brand :: "string option"
  f_rating :: "real option"
  f_availability :: "bool option"
  f_description :: "string option"
  f_image :: "string option"

text \<open>The update document of the user update route.\<close>

record user_fields =
  f_user_name :: "string option"
  f_email :: "string option"
  f_role :: "string option"

text \<open>
  \<^verbatim>\<open>Product.findByIdAndUpdate\<close> and \<^verbatim>\<open>User.findByIdAndUpdate\<close> with \<^verbatim>\<open>runValidators\<close>: they
  throw, or find no document (\<open>Inr None\<close>), or give the new database and the updated
  document.
\<close>

type_synonym product_findByIdAndUpdate =
  "db \<Rightarrow> objectId \<Rightarrow> product_fields \<Rightarrow> error + (db \<times> product) option"

type_synonym user_findByIdAndUpdate =
  "db \<Rightarrow> objectId \<Rightarrow> user_fields \<Rightarrow> error + (db \<times> user) option"

text \<open>
  \<^verbatim>\<open>POST /api/admin/products\<close>. \<^verbatim>\<open>!price\<close> and \<^verbatim>\<open>!rating\<close> also hold for a price and a rating
  of 0; \<^verbatim>\<open>Boolean(availability)\<close> of an absent field is \<^verbatim>\<open>false\<close>.
\<close>

definition post_admin_products ::
  "objectId \<Rightarrow> db \<Rightarrow> string option \<Rightarrow> product_fields \<Rightarrow> db \<times> response" where
  "post_admin_products newId s email' b =
     (case (case email' of None \<Rightarrow> None | Some e \<Rightarrow> User_findOne s (toLowerCase e)) of
        None \<Rightarrow> (s, Json 403 ''Admin access required'')
      | Some u \<Rightarrow>
          if role u \<noteq> ''admin'' then (s, Json 403 ''Admin access required'')
          else if falsy (f_name b) \<or> falsy (f_category b) \<or> falsy_num (f_price b) \<or>
                  falsy (f_brand b) \<or> falsy_num (f_rating b) \<or> falsy (f_description b) \<or>
                  falsy (f_image b) then
            (s, Json 400 ''All product fields are required'')
          else
            (case Product_create newId s
                    \<lparr>name = trim (the (f_name b)), category = trim (the (f_category b)),
                     price = the (f_price b), brand = trim (the (f_brand b)),
                     rating = the (f_rating b),
                     availability = (case f_availability b of None \<Rightarrow> False | Some v \<Rightarrow> v),
                     description = trim (the (f_description b)),
                     image = trim (the (f_image b))\<rparr> of
               Inl err \<Rightarrow> (s, Json 500 ''Failed to create product'')
             | Inr (s', p) \<Rightarrow> (s', JsonProduct 201 ''Product created successfully'' newId p)))"

text \<open>
  \<^verbatim>\<open>PUT /api/admin/products/:id\<close>. \<^verbatim>\<open>price ? Number(price) : undefined\<close> drops a price of 0
  from the update, and so for the rating.
\<close>

definition put_admin_products ::
  "product_findByIdAndUpdate \<Rightarrow> db \<Rightarrow> objectId option \<Rightarrow> string option \<Rightarrow> product_fields \<Rightarrow>
     db \<times> response" where
  "put_admin_products findByIdAndUpdate s id' email' b =
     (case id' of
        None \<Rightarrow> (s, Json 400 ''Invalid product ID format'')
      | Some i \<Rightarrow>
          (case (case email' of None \<Rightarrow> None | Some e \<Rightarrow> User_findOne s (toLowerCase e)) of
             None \<Rightarrow> (s, Json 403 ''Admin access required'')
           | Some u \<Rightarrow>
               if role u \<noteq> ''admin'' then (s, Json 403 ''Admin access required'')
               else
                 (case findByIdAndUpdate s i
                         \<lparr>f_name = map_option trim (f_name b),
                          f_category = map_option trim (f_category b),
                          f_price = (if falsy_num (f_price b) then None else f_price b),
                          f_brand = map_option trim (f_brand b),
                          f_rating = (if falsy_num (f_rating b) then None else f_rating b),
                          f_availability = f_availability b,
                          f_description = map_option trim (f_description b),
                          f_image = map_option trim (f_image b)\<rparr> of
                    Inl err \<Rightarrow> (s, Json 500 ''Failed to update product'')
                  | Inr None \<Rightarrow> (s, Json 404 ''Product not found'')
                  | Inr (Some (s', p)) \<Rightarrow>
                      (s', JsonProduct 200 ''Product updated successfully'' i p))))"

text \<open>\<^verbatim>\<open>DELETE /api/admin/products/:id\<close>; the e-mail is a header of the request.\<close>

definition delete_admin_products ::
  "db \<Rightarrow> objectId option \<Rightarrow> string option \<Rightarrow> db \<times> response" where
  "delete_admin_products s id' email' =
     (case id' of
        None \<Rightarrow> (s, Json 400 ''Invalid product ID format'')
      | Some i \<Rightarrow>
          (case (case email' of None \<Rightarrow> None | Some e \<Rightarrow> User_findOne s (toLowerCase e)) of
             None \<Rightarrow> (s, Json 403 ''Admin access required'')
           | Some u \<Rightarrow>
               if role u \<noteq> ''admin'' then (s, Json 403 ''Admin access required'')
               else
                 (case products s i of
                    None \<Rightarrow> (s, Json 404 ''Product not found'')
                  | Some deletedProduct \<Rightarrow>
                      (s\<lparr>products := (products s)(i := None)\<rparr>,
                       JsonDeletedProduct ''Product deleted successfully'' i
                         (name deletedProduct)))))"

text \<open>
  \<^verbatim>\<open>PUT /api/admin/users/:id\<close>. The \<^verbatim>\<open>catch\<close> block answers a duplicate key with 400 and
  every other exception with 500.
\<close>

definition put_admin_users ::
  "user_findByIdAndUpdate \<Rightarrow> db \<Rightarrow> objectId option \<Rightarrow> string option \<Rightarrow> string option \<Rightarrow>
     string option \<Rightarrow> string option \<Rightarrow> db \<times> response" where
  "put_admin_users findByIdAndUpdate s id' email' name' userEmail role' =
     (case id' of
        None \<Rightarrow> (s, Json 400 ''Invalid user ID format'')
      | Some i \<Rightarrow>
          (case (case email' of None \<Rightarrow> None | Some e \<Rightarrow> User_findOne s (toLowerCase e)) of
             None \<Rightarrow> (s, Json 403 ''Admin access required'')
           | Some admin \<Rightarrow>
               if role admin \<noteq> ''admin'' then (s, Json 403 ''Admin access required'')
               else
                 (case findByIdAndUpdate s i
                         \<lparr>f_user_name = map_option trim name',
                          f_email = map_option (\<lambda>x. trim (toLowerCase x)) userEmail,
                          f_role = role'\<rparr> of
                    Inl err \<Rightarrow>
                      if err = DuplicateKey then (s, Json 400 ''Email already exists'')
                      else (s, Json 500 ''Failed to update user'')
                  | Inr None \<Rightarrow> (s, Json 404 ''User not found'')
                  | Inr (Some (s', updatedUser)) \<Rightarrow>
                      (s', JsonUser 200 ''User updated successfully'' updatedUser))))"

text \<open>
  \<^verbatim>\<open>DELETE /api/admin/users/:id\<close>; the e-mail is a header of the request. An administrator
  cannot delete the own account.
\<close>

definition delete_admin_users ::
  "db \<Rightarrow> objectId option \<Rightarrow> string option \<Rightarrow> db \<times> response" where
  "delete_admin_users s id' email' =
     (case id' of
        None \<Rightarrow> (s, Json 400 ''Invalid user ID format'')
      | Some i \<Rightarrow>
          (case (case email' of None \<Rightarrow> None | Some e \<Rightarrow> User_findOne s (toLowerCase e)) of
             None \<Rightarrow> (s, Json 403 ''Admin access required'')
           | Some admin \<Rightarrow>
               if role admin \<noteq> ''admin'' then (s, Json 403 ''Admin access required'')
               else if i = user_id admin then
                 (s, Json 400 ''Cannot delete your own admin account'')
               else
                 (case User_findById s i of
                    None \<Rightarrow> (s, Json 404 ''User not found'')
                  | Some deletedUser \<Rightarrow>
                      (s\<lparr>users := remove1 deletedUser (users s)\<rparr>,
                       JsonDeletedUser ''User deleted successfully'' i (user_name deletedUser)
                         (email deletedUser)))))"

text \<open>The order that a response carries, if any.\<close>

fun response_order :: "response \<Rightarrow> order option" where
  "response_order (JsonOrder c m ord) = Some ord"
| "response_order r = None"

subsection \<open>Notions of the specification\<close>

text \<open>
  A sequence of add requests of one user for one product, each of which must be answered
  with status 200; \<open>None\<close> when one of them is not.
\<close>

fun add_all :: "db \<Rightarrow> string \<Rightarrow> objectId \<Rightarrow> real list \<Rightarrow> db option" where
  "add_all s e p [] = Some s"
| "add_all s e p (q # qs) =
     (case post_cart_add s (Some e) (Some p) (Some q) of
        (s', r) \<Rightarrow> if statusCode r = 200 then add_all s' e p qs else None)"

text \<open>
  The cart invariant: every quantity is at least 1, and no two items of a cart refer to the
  same product. It holds of a database when it holds of every cart.
\<close>

definition cart_inv :: "cart_item list \<Rightarrow> bool" where
  "cart_inv its = (list_all (\<lambda>it. 1 \<le> quantity it) its \<and> distinct (map productId its))"

definition db_inv :: "db \<Rightarrow> bool" where
  "db_inv s = (\<forall>e its. carts s e = Some its \<longrightarrow> cart_inv its)"








subsection \<open>An example database\<close>

text \<open>
  Three products, an administrator and a customer, Ann's cart with three lamps and one pen,
  Bob's cart whose second item refers to a product that no longer exists, Dan's cart with
  one clip, and one earlier order. The price of the clip is the double nearest to 0.015,
  which is 1080863910568919 / 72057594037927936 (the denominator is 2 to the power 56).
\<close>

definition example_lamp :: product where
  "example_lamp = \<lparr>name = ''Lamp'', category = ''Home'', price = 10, brand = ''Lux'', rating = 4,
     availability = True, description = ''A desk lamp'', image = ''lamp.png''\<rparr>"

definition example_pen :: product where
  "example_pen = \<lparr>name = ''Pen'', category = ''Office'', price = 11 / 2, brand = ''Ink'',
     rating = 5, availability = True, description = ''A pen'', image = ''pen.png''\<rparr>"

definition example_clip :: product where
  "example_clip = \<lparr>name = ''Clip'', category = ''Office'',
     price = 1080863910568919 / 72057594037927936, brand = ''Ink'', rating = 3,
     availability = True, description = ''A paper clip'', image = ''clip.png''\<rparr>"

definition example_address :: delivery_address where
  "example_address = \<lparr>fullName = ''Ann Lee'', address = ''1 Main St'', city = ''Pune'',
     state = ''MH'', zipCode = ''411001'', phone = ''5550100''\<rparr>"

definition example_order :: order where
  "example_order = \<lparr>order_userEmail = ''bob@x.com'',
     order_items = [\<lparr>item_productId = 20, productName = ''Pen'', productImage = ''pen.png'',
                     item_quantity = 2, item_price = 11 / 2\<rparr>],
     totalAmount = 11, status = ''pending'', deliveryAddress = example_address,
     paymentMethod = ''upi'', orderDate = 5\<rparr>"

definition example_ann_cart :: "cart_item list" where
  "example_ann_cart = [\<lparr>productId = 10, quantity = 3\<rparr>, \<lparr>productId = 20, quantity = 1\<rparr>]"

definition example_bob_cart :: "cart_item list" where
  "example_bob_cart = [\<lparr>productId = 20, quantity = 1\<rparr>, \<lparr>productId = 90, quantity = 2\<rparr>]"

definition example_dan_cart :: "cart_item list" where
  "example_dan_cart = [\<lparr>productId = 30, quantity = 1\<rparr>]"

definition example_admin :: user where
  "example_admin = \<lparr>user_id = 100, user_name = ''Root'', email = ''admin@x.com'',
     password = ''$2a$12$hash'', role = ''admin''\<rparr>"

definition example_ann :: user where
  "example_ann = \<lparr>user_id = 200, user_name = ''Ann'', email = ''ann@x.com'',
     password = ''$2a$12$hash'', role = ''user''\<rparr>"

definition example_db :: db where
  "example_db = \<lparr>
     products = [10 \<mapsto> example_lamp, 20 \<mapsto> example_pen, 30 \<mapsto> example_clip],
     users = [example_admin, example_ann],
     carts = [''ann@x.com'' \<mapsto> example_ann_cart, ''bob@x.com'' \<mapsto> example_bob_cart,
              ''dan@x.com'' \<mapsto> example_dan_cart],
     orders = [example_order]\<rparr>"

text \<open>
  The fields of a product for a request, and update operations that always throw.
\<close>

definition example_product_fields :: product_fields where
  "example_product_fields = \<lparr>f_name = Some ''Desk'', f_category = Some ''Home'',
     f_price = Some 120, f_brand = Some ''Oak'', f_rating = Some 4, f_availability = Some True,
     f_description = Some ''A desk'', f_image = Some ''desk.png''\<rparr>"

definition example_product_update :: product_findByIdAndUpdate where
  "example_product_update s i d = Inl ValidationError"

definition example_user_update :: user_findByIdAndUpdate where
  "example_user_update s i d = Inl ValidationError"

text \<open>The order that Ann's checkout at time 7, paying by card, creates.\<close>

definition example_ann_order :: order where
  "example_ann_order = \<lparr>order_userEmail = ''ann@x.com'',
     order_items = [\<lparr>item_productId = 10, productName = ''Lamp'', productImage = ''lamp.png'',
                     item_quantity = 3, item_price = 10\<rparr>,
                    \<lparr>item_productId = 20, productName = ''Pen'', productImage = ''pen.png'',
                     item_quantity = 1, item_price = 11 / 2\<rparr>],
     totalAmount = 71 / 2, status = ''pending'', deliveryAddress = example_address,
     paymentMethod = ''card'', orderDate = 7\<rparr>"

section \<open>Properties\<close>

subsection \<open>Lists\<close>

lemma findIndex_None_iff: "findIndex P xs = None \<longleftrightarrow> (\<forall>x\<in>set xs. \<not> P x)"
  by (induction xs) auto


lemma findIndex_append_last:
  "\<forall>x\<in>set pre. \<not> P x \<Longrightarrow> P y \<Longrightarrow> findIndex P (pre @ [y]) = Some (length pre)"
  by (induction pre) auto





subsection \<open>Rounding to a double\<close>

lemma pow2_powr: "pow2 e = 2 powr real_of_int e"
  by (simp add: pow2_def powr_real_of_int inverse_eq_divide)

lemma pow2_pos: "0 < pow2 e"
  by (simp add: pow2_def)

lemma pow2_add: "pow2 (a + b) = pow2 a * pow2 b"
  by (simp add: pow2_powr powr_add)

lemma pow2_less_iff: "pow2 a < pow2 b \<longleftrightarrow> a < b"
  by (simp add: pow2_powr)

lemma pow2_le_iff: "pow2 a \<le> pow2 b \<longleftrightarrow> a \<le> b"
  by (simp add: pow2_powr)

lemma pow2_nat: "0 \<le> j \<Longrightarrow> pow2 j = real_of_int (2 ^ nat j)"
  by (simp add: pow2_def)

lemma round_even_of_int: "round_even (real_of_int k) = k"
  by (simp add: round_even_def)



lemma exponent_search_spec:
  "x < pow2 (e + 1) \<Longrightarrow>
   x < pow2 (exponent_search n e x + 1) \<and>
   (pow2 (exponent_search n e x) \<le> x \<or> exponent_search n e x = e - int n)"
proof (induction n arbitrary: e)
  case 0
  then show ?case by simp
next
  case (Suc n)
  show ?case
  proof (cases "pow2 e \<le> x")
    case True
    with Suc.prems show ?thesis by simp
  next
    case False
    then have "x < pow2 (e - 1 + 1)" by simp
    from Suc.IH [OF this] False show ?thesis
      by (simp add: algebra_simps)
  qed
qed

lemma exponent_spec:
  assumes "\<bar>x\<bar> < pow2 1024"
  shows "\<bar>x\<bar> < pow2 (exponent x + 1) \<and> (pow2 (exponent x) \<le> \<bar>x\<bar> \<or> exponent x = - 1022)"
  using exponent_search_spec [of "\<bar>x\<bar>" 1023 2045] assms
  by (simp add: exponent_def)

lemma exponent_eq:
  assumes "- 1022 \<le> e" "e \<le> 1023" "pow2 e \<le> \<bar>x\<bar>" "\<bar>x\<bar> < pow2 (e + 1)"
  shows "exponent x = e"
proof -
  from assms(2) have "pow2 (e + 1) \<le> pow2 1024"
    by (simp add: pow2_le_iff)
  with assms(4) have "\<bar>x\<bar> < pow2 1024"
    by simp
  from exponent_spec [OF this] have up: "\<bar>x\<bar> < pow2 (exponent x + 1)"
    and lo: "pow2 (exponent x) \<le> \<bar>x\<bar> \<or> exponent x = - 1022"
    by simp_all
  from assms(3) up have "pow2 e < pow2 (exponent x + 1)" by simp
  then have a: "e \<le> exponent x"
    by (simp add: pow2_less_iff)
  from lo have "exponent x \<le> e"
  proof
    assume "pow2 (exponent x) \<le> \<bar>x\<bar>"
    with assms(4) have "pow2 (exponent x) < pow2 (e + 1)" by simp
    then show ?thesis by (simp add: pow2_less_iff)
  next
    assume "exponent x = - 1022"
    with assms(1) show ?thesis by simp
  qed
  with a show ?thesis by simp
qed

lemma fl_eval:
  assumes "x \<noteq> 0" "- 1022 \<le> e" "e \<le> 1023" "pow2 e \<le> \<bar>x\<bar>" "\<bar>x\<bar> < pow2 (e + 1)"
  shows "fl x = real_of_int (round_even (x / pow2 (e - 52))) * pow2 (e - 52)"
  using exponent_eq [OF assms(2-5)] assms(1) by (simp add: fl_def Let_def)

lemma fl_dyadic:
  assumes m: "\<bar>m\<bar> < 2 ^ 53" and k: "- 1074 \<le> k" "k \<le> 971"
  shows "fl (real_of_int m * pow2 k) = real_of_int m * pow2 k"
proof (cases "m = 0")
  case True
  then show ?thesis by (simp add: fl_def)
next
  case False
  let ?x = "real_of_int m * pow2 k"
  have x0: "?x \<noteq> 0"
    using False pow2_pos [of k] by simp
  have ax: "\<bar>?x\<bar> = real_of_int \<bar>m\<bar> * pow2 k"
    using pow2_pos [of k] by (simp add: abs_mult)
  have "real_of_int \<bar>m\<bar> < 2 ^ 53"
    using m by (metis of_int_less_numeral_power_cancel_iff)
  then have "\<bar>?x\<bar> < 2 ^ 53 * pow2 k"
    unfolding ax using pow2_pos [of k] by simp
  also have "\<dots> = pow2 (53 + k)"
    by (simp add: pow2_add) (simp add: pow2_def)
  finally have up: "\<bar>?x\<bar> < pow2 (53 + k)" .
  moreover have "pow2 (53 + k) \<le> pow2 1024"
    using k(2) by (simp add: pow2_le_iff)
  ultimately have "\<bar>?x\<bar> < pow2 1024" by simp
  from exponent_spec [OF this]
  have lo: "pow2 (exponent ?x) \<le> \<bar>?x\<bar> \<or> exponent ?x = - 1022" by simp
  define e where "e = exponent ?x"
  define j where "j = 52 + k - e"
  from lo have j: "0 \<le> j"
  proof
    assume "pow2 (exponent ?x) \<le> \<bar>?x\<bar>"
    with up have "pow2 e < pow2 (53 + k)" by (simp add: e_def)
    then show ?thesis by (simp add: pow2_less_iff j_def)
  next
    assume "exponent ?x = - 1022"
    with k(1) show ?thesis by (simp add: j_def e_def)
  qed
  have split: "pow2 k = pow2 j * pow2 (e - 52)"
    by (simp add: pow2_add [symmetric] j_def)
  have "?x / pow2 (e - 52) = real_of_int m * pow2 j"
    using pow2_pos [of "e - 52"] by (simp add: split)
  also have "\<dots> = real_of_int (m * 2 ^ nat j)"
    by (simp add: pow2_nat [OF j])
  finally have q: "?x / pow2 (e - 52) = real_of_int (m * 2 ^ nat j)" .
  have "fl ?x = real_of_int (round_even (?x / pow2 (e - 52))) * pow2 (e - 52)"
    using x0 by (simp add: fl_def Let_def e_def)
  also have "\<dots> = real_of_int (m * 2 ^ nat j) * pow2 (e - 52)"
    by (simp only: q round_even_of_int)
  also have "\<dots> = real_of_int m * (pow2 j * pow2 (e - 52))"
    by (simp add: pow2_nat [OF j])
  also have "\<dots> = ?x"
    by (simp only: split)
  finally show ?thesis .
qed

lemma fl_of_int: "\<bar>m\<bar> < 2 ^ 53 \<Longrightarrow> fl (real_of_int m) = real_of_int m"
  using fl_dyadic [of m 0] by (simp add: pow2_def)

lemma fl_half: "\<bar>m\<bar> < 2 ^ 53 \<Longrightarrow> fl (real_of_int m / 2) = real_of_int m / 2"
  using fl_dyadic [of m "- 1"] by (simp add: pow2_def)





text \<open>Whole numbers below 2 to the power 53 are added without error.\<close>

lemma fadd_whole:
  assumes "a \<in> \<int>" "b \<in> \<int>" "\<bar>a + b\<bar> < 2 ^ 53"
  shows "fadd a b = a + b"
proof -
  from assms(1,2) have "a + b \<in> \<int>" by simp
  then obtain m where m: "a + b = real_of_int m" by (rule Ints_cases)
  with assms(3) have "real_of_int \<bar>m\<bar> < 2 ^ 53" by simp
  then have "\<bar>m\<bar> < 2 ^ 53"
    by (metis of_int_less_numeral_power_cancel_iff)
  from fl_of_int [OF this] m show ?thesis
    by (simp add: fadd_def)
qed

lemma foldl_fadd_whole:
  assumes "a \<in> \<int>" "0 < a" "\<forall>q\<in>set qs. q \<in> \<int> \<and> 0 < q" "a + sum_list qs < 2 ^ 53"
  shows "foldl fadd a qs = a + sum_list qs"
  using assms
proof (induction qs arbitrary: a)
  case Nil
  then show ?case by simp
next
  case (Cons q qs)
  from Cons.prems(3) have q: "q \<in> \<int>" "0 < q" and qs: "\<forall>q\<in>set qs. q \<in> \<int> \<and> 0 < q"
    by auto
  from qs have "0 \<le> sum_list qs"
    by (induction qs) auto
  with Cons.prems(2,4) q have b: "\<bar>a + q\<bar> < 2 ^ 53"
    by simp
  from fadd_whole [OF Cons.prems(1) q(1) b] have f: "fadd a q = a + q" .
  have "foldl fadd (a + q) qs = a + q + sum_list qs"
    using Cons.prems(1,2,4) q qs by (intro Cons.IH) (auto simp: add.assoc)
  with f show ?case by (simp add: add.assoc)
qed

subsection \<open>Rounding to two decimal places\<close>



subsection \<open>Evaluating the routes on the example database\<close>

lemmas example_defs = example_db_def example_lamp_def example_pen_def example_clip_def
  example_address_def example_ann_cart_def example_bob_cart_def example_dan_cart_def

lemmas checkout_defs = post_orders_def populate_def Order_create_def Order_validate_def
  Order_item_validate_def Address_validate_def Cart_save_def Cart_validate_def Math_round_def
  paymentMethods_def validStatuses_def

text \<open>The double arithmetic of the examples.\<close>

lemma example_fl_exact:
  "fmul 10 3 = 30"
  "fadd 0 30 = 30"
  "fmul (11 / 2) 1 = 11 / 2"
  "fadd 30 (11 / 2) = 71 / 2"
  "fmul (71 / 2) 100 = 3550"
  "fdiv 3550 100 = 71 / 2"
  "fadd 3 1 = 4"
  "fadd 2 3 = 5"
  using fl_of_int [of 30] fl_half [of 11] fl_half [of 71] fl_of_int [of 3550]
    fl_of_int [of 4] fl_of_int [of 5]
  by (simp_all add: fmul_def fadd_def fdiv_def)


lemma example_fl_tie: "fadd 9007199254740992 1 = 9007199254740992"
  using fl_eval [of "9007199254740992 + 1" 53]
  by (simp add: fadd_def round_even_def pow2_def Let_def)

lemma example_lower:
  "toLowerCase ''Admin@X.com'' = ''admin@x.com''"
  "toLowerCase ''ann@x.com'' = ''ann@x.com''"
  "toLowerCase ''nobody@x.com'' = ''nobody@x.com''"
  by code_simp+

lemma example_address_valid: "Address_validate example_address"
  by (simp add: Address_validate_def example_address_def)


lemma example_carts:
  "carts example_db ''ann@x.com'' = Some example_ann_cart"
  "carts example_db ''bob@x.com'' = Some example_bob_cart"
  "carts example_db ''cy@x.com'' = None"
  "carts example_db ''dan@x.com'' = Some example_dan_cart"
  by (simp_all add: example_db_def)

lemma example_users:
  "User_findOne example_db ''admin@x.com'' = Some example_admin"
  "User_findOne example_db ''ann@x.com'' = Some example_ann"
  "User_findOne example_db ''nobody@x.com'' = None"
  "role example_admin = ''admin''"
  "role example_ann = ''user''"
  by (simp_all add: User_findOne_def example_db_def example_admin_def example_ann_def)

lemma example_orders: "orders example_db = [example_order]"
  by (simp add: example_db_def)

lemma example_checkout:
  "post_orders 7 example_db (Some ''ann@x.com'') (Some example_address) (Some ''card'') =
     (example_db\<lparr>orders := [example_order, example_ann_order],
                 carts := (carts example_db)(''ann@x.com'' \<mapsto> [])\<rparr>,
      JsonOrder 201 ''Order placed successfully'' example_ann_order)"
  by (simp add: checkout_defs example_defs example_ann_order_def example_fl_exact)


lemma example_checkout_bitcoin:
  "post_orders 7 example_db (Some ''ann@x.com'') (Some example_address) (Some ''bitcoin'') =
     (example_db, Json 500 ''Failed to create order'')"
  by (simp add: checkout_defs example_defs example_fl_exact)

lemma example_add_all:
  "add_all example_db ''ann@x.com'' 50 [2, 3] =
     Some (example_db\<lparr>carts := (carts example_db)(''ann@x.com'' \<mapsto>
         example_ann_cart @ [\<lparr>productId = 50, quantity = 5\<rparr>])\<rparr>)"
  by (simp add: post_cart_add_def Cart_save_def Cart_validate_def example_defs example_fl_exact)

lemma example_add_all_tie:
  "add_all example_db ''ann@x.com'' 50 [9007199254740992, 1] =
     Some (example_db\<lparr>carts := (carts example_db)(''ann@x.com'' \<mapsto>
         example_ann_cart @ [\<lparr>productId = 50, quantity = 9007199254740992\<rparr>])\<rparr>)"
  by (simp add: post_cart_add_def Cart_save_def Cart_validate_def example_defs example_fl_tie)


lemma example_status_update:
  "put_admin_orders example_db (Some 0) (Some ''Admin@X.com'') ''shipped'' =
     (example_db\<lparr>orders := [example_order\<lparr>status := ''shipped''\<rparr>]\<rparr>,
      JsonOrder 200 ''Order status updated successfully'' (example_order\<lparr>status := ''shipped''\<rparr>))"
  by (simp add: put_admin_orders_def example_lower example_users validStatuses_def Let_def)
     (simp add: example_db_def)

subsection \<open>Adding to the cart\<close>

lemma post_cart_add_fresh:
  assumes "post_cart_add s (Some e) (Some p) (Some q) = (s', r)" "statusCode r = 200" "0 < q"
    and "p \<notin> productId ` set (case carts s e of None \<Rightarrow> [] | Some its \<Rightarrow> its)"
  shows "carts s' e =
    Some ((case carts s e of None \<Rightarrow> [] | Some its \<Rightarrow> its) @ [\<lparr>productId = p, quantity = q\<rparr>])"
proof -
  let ?cart = "case carts s e of None \<Rightarrow> [] | Some its \<Rightarrow> its"
  from assms(4) have "findIndex (\<lambda>it. productId it = p) ?cart = None"
    by (auto simp: findIndex_None_iff)
  with assms(1-3) show ?thesis
    by (auto simp: post_cart_add_def Cart_save_def Let_def split: if_splits option.splits)
qed

lemma post_cart_add_merge:
  assumes "post_cart_add s (Some e) (Some p) (Some q) = (s', r)" "statusCode r = 200" "0 < q"
    and "carts s e = Some (pre @ [\<lparr>productId = p, quantity = a\<rparr>])"
    and "p \<notin> productId ` set pre"
  shows "carts s' e = Some (pre @ [\<lparr>productId = p, quantity = fadd a q\<rparr>])"
proof -
  from assms(5) have "findIndex (\<lambda>it. productId it = p) (pre @ [\<lparr>productId = p, quantity = a\<rparr>])
      = Some (length pre)"
    by (intro findIndex_append_last) auto
  with assms(1-4) show ?thesis
    by (auto simp: post_cart_add_def Cart_save_def Let_def split: if_splits)
qed

lemma add_all_merge:
  assumes "add_all s e p qs = Some s'" "\<forall>q\<in>set qs. 0 < q"
    and "carts s e = Some (pre @ [\<lparr>productId = p, quantity = a\<rparr>])"
    and "p \<notin> productId ` set pre"
  shows "carts s' e = Some (pre @ [\<lparr>productId = p, quantity = foldl fadd a qs\<rparr>])"
  using assms
proof (induction qs arbitrary: s a)
  case Nil
  then show ?case by simp
next
  case (Cons q qs)
  obtain s1 r where step: "post_cart_add s (Some e) (Some p) (Some q) = (s1, r)"
    by (cases "post_cart_add s (Some e) (Some p) (Some q)")
  with Cons.prems(1) have ok: "statusCode r = 200" and rest: "add_all s1 e p qs = Some s'"
    by (auto split: if_splits)
  from Cons.prems(2) have q: "0 < q" and qs: "\<forall>q\<in>set qs. 0 < q" by auto
  from post_cart_add_merge [OF step ok q Cons.prems(3) Cons.prems(4)]
  have "carts s1 e = Some (pre @ [\<lparr>productId = p, quantity = fadd a q\<rparr>])" .
  from Cons.IH [OF rest qs this Cons.prems(4)] show ?case
    by simp
qed

text \<open>A quantity that is left out counts as 1; a negative quantity is refused.\<close>

lemma post_cart_add_default:
  "post_cart_add s e p None = post_cart_add s e p (Some 1)"
  by (cases e; cases p) (simp_all add: post_cart_add_def)

lemma post_cart_add_negative:
  "q < 0 \<Longrightarrow> e \<noteq> [] \<Longrightarrow>
   post_cart_add s (Some e) (Some p) (Some q) = (s, Json 400 ''Quantity must be greater than 0'')"
  by (simp add: post_cart_add_def)

subsection \<open>The cart invariant\<close>

lemma db_inv_orders: "db_inv (s\<lparr>orders := x\<rparr>) = db_inv s"
  by (simp add: db_inv_def)







subsection \<open>Checkout\<close>


lemma orderItems_dangling:
  "\<exists>it\<in>set cart. products s (productId it) = None \<Longrightarrow>
   orderItems acc (populate s cart) = Inl TypeError"
proof (induction cart arbitrary: acc)
  case Nil
  then show ?case by simp
next
  case (Cons it cart)
  show ?case
  proof (cases "products s (productId it)")
    case None
    then show ?thesis by (simp add: populate_def)
  next
    case (Some p)
    with Cons.prems have "\<exists>it\<in>set cart. products s (productId it) = None" by auto
    from Cons.IH [OF this] have
      "orderItems (fadd acc (fmul (price p) (quantity it))) (populate s cart) = Inl TypeError" .
    with Some show ?thesis
      by (simp add: populate_def)
  qed
qed




lemma post_orders_cases:
  "post_orders now s e a pm = (s', r) \<Longrightarrow>
     s' = s \<and> statusCode r \<noteq> 201 \<or>
     (\<exists>e' ord. e = Some e' \<and> r = JsonOrder 201 ''Order placed successfully'' ord \<and>
        s' = s\<lparr>orders := orders s @ [ord], carts := (carts s)(e' \<mapsto> [])\<rparr>)"
  by (auto simp: post_orders_def Order_create_def Cart_save_def Cart_validate_def
      split: option.splits sum.splits if_splits prod.splits)





section \<open>The claims\<close>




text \<open>
  C2. A checkout that answers 201 has created the order that the answer carries and has
  emptied the cart of the user; any other answer leaves the whole database as it was. So the
  cart is never changed when no order is created.
\<close>

theorem checkout_all_or_nothing:
  assumes "post_orders now s e a pm = (s', r)"
  shows "(statusCode r = 201 \<longrightarrow>
            (\<exists>e' ord. e = Some e' \<and> response_order r = Some ord \<and>
               orders s' = orders s @ [ord] \<and> carts s' = (carts s)(e' \<mapsto> []))) \<and>
         (statusCode r \<noteq> 201 \<longrightarrow> s' = s) \<and>
         (orders s' = orders s \<longrightarrow> carts s' = carts s)"
  using post_orders_cases [OF assms] by auto

theorem checkout_all_or_nothing_witness:
  "statusCode (snd (post_orders 7 example_db (Some ''ann@x.com'') (Some example_address)
     (Some ''card''))) = 201 \<and>
   orders (fst (post_orders 7 example_db (Some ''ann@x.com'') (Some example_address)
     (Some ''card''))) = orders example_db @ [example_ann_order] \<and>
   carts (fst (post_orders 7 example_db (Some ''ann@x.com'') (Some example_address)
     (Some ''card''))) ''ann@x.com'' = Some []"
  using checkout_all_or_nothing [OF example_checkout]
  by (simp add: example_checkout example_orders)

text \<open>
  C3, as the code has it. Starting from a cart that does not hold product \<open>p\<close>, a non-empty
  sequence of successful add requests for \<open>p\<close> with positive quantities leaves exactly one
  item for \<open>p\<close> in the cart (the adds merge: no duplicate, no overwrite) and the other items
  as before; its quantity is the running double sum of the quantities, which is their sum
  when they are whole numbers and the sum is below 2 to the power 53.
\<close>

theorem cart_add_accumulates:
  assumes "add_all s e p qs = Some s'" "qs \<noteq> []" "\<forall>q\<in>set qs. 0 < q"
    and "p \<notin> productId ` set (case carts s e of None \<Rightarrow> [] | Some its \<Rightarrow> its)"
  shows "\<exists>its. carts s' e = Some its \<and>
           filter (\<lambda>it. productId it = p) its =
             [\<lparr>productId = p, quantity = foldl fadd (hd qs) (tl qs)\<rparr>] \<and>
           filter (\<lambda>it. productId it \<noteq> p) its = (case carts s e of None \<Rightarrow> [] | Some its \<Rightarrow> its) \<and>
           ((\<forall>q\<in>set qs. q \<in> \<int>) \<and> sum_list qs < 2 ^ 53 \<longrightarrow>
              foldl fadd (hd qs) (tl qs) = sum_list qs)"
proof -
  let ?cart = "case carts s e of None \<Rightarrow> [] | Some its \<Rightarrow> its"
  from assms(2) obtain q qs' where qs: "qs = q # qs'" by (cases qs) auto
  obtain s1 r where step: "post_cart_add s (Some e) (Some p) (Some q) = (s1, r)"
    by (cases "post_cart_add s (Some e) (Some p) (Some q)")
  with assms(1) qs have ok: "statusCode r = 200" and rest: "add_all s1 e p qs' = Some s'"
    by (auto split: if_splits)
  from assms(3) qs have q: "0 < q" and qs': "\<forall>q\<in>set qs'. 0 < q" by auto
  from post_cart_add_fresh [OF step ok q assms(4)]
  have "carts s1 e = Some (?cart @ [\<lparr>productId = p, quantity = q\<rparr>])" .
  from add_all_merge [OF rest qs' this assms(4)]
  have fin: "carts s' e = Some (?cart @ [\<lparr>productId = p, quantity = foldl fadd q qs'\<rparr>])" .
  from assms(4) have "filter (\<lambda>it. productId it = p) ?cart = []"
    "filter (\<lambda>it. productId it \<noteq> p) ?cart = ?cart"
    by (auto simp: filter_empty_conv filter_id_conv)
  with fin qs have items: "carts s' e = Some (?cart @ [\<lparr>productId = p, quantity = foldl fadd q qs'\<rparr>]) \<and>
      filter (\<lambda>it. productId it = p) (?cart @ [\<lparr>productId = p, quantity = foldl fadd q qs'\<rparr>]) =
        [\<lparr>productId = p, quantity = foldl fadd (hd qs) (tl qs)\<rparr>] \<and>
      filter (\<lambda>it. productId it \<noteq> p) (?cart @ [\<lparr>productId = p, quantity = foldl fadd q qs'\<rparr>]) =
        ?cart"
    by simp
  have whole: "(\<forall>q\<in>set qs. q \<in> \<int>) \<and> sum_list qs < 2 ^ 53 \<longrightarrow>
      foldl fadd (hd qs) (tl qs) = sum_list qs"
  proof
    assume h: "(\<forall>q\<in>set qs. q \<in> \<int>) \<and> sum_list qs < 2 ^ 53"
    with qs qs' have "q \<in> \<int>" "\<forall>x\<in>set qs'. x \<in> \<int> \<and> 0 < x" "q + sum_list qs' < 2 ^ 53"
      by auto
    from foldl_fadd_whole [OF this(1) q this(2,3)] qs show "foldl fadd (hd qs) (tl qs) = sum_list qs"
      by simp
  qed
  from items whole show ?thesis by blast
qed

theorem cart_add_accumulates_witness:
  "Option.bind (add_all example_db ''ann@x.com'' 50 [2, 3]) (\<lambda>s'. carts s' ''ann@x.com'') =
     Some [\<lparr>productId = 10, quantity = 3\<rparr>, \<lparr>productId = 20, quantity = 1\<rparr>,
           \<lparr>productId = 50, quantity = 5\<rparr>] \<and>
   carts example_db ''ann@x.com'' =
     Some [\<lparr>productId = 10, quantity = 3\<rparr>, \<lparr>productId = 20, quantity = 1\<rparr>] \<and>
   foldl fadd 2 [3] = 5 \<and> sum_list [2, 3 :: real] = 5 \<and> list_all (\<lambda>q. q \<in> \<int>) [2, 3 :: real]"
proof -
  have q: "[2, 3 :: real] \<noteq> []" "\<forall>q\<in>set [2, 3 :: real]. 0 < q"
    by simp_all
  have a: "50 \<notin> productId ` set (case carts example_db ''ann@x.com'' of None \<Rightarrow> []
      | Some its \<Rightarrow> its)"
    by (simp add: example_carts example_ann_cart_def)
  from cart_add_accumulates [OF example_add_all q a] show ?thesis
    unfolding example_add_all by (simp add: example_carts example_ann_cart_def example_fl_exact)
qed

text \<open>
  C3, as the claim states it, fails: two successful adds of 9007199254740992 (2 to the
  power 53) and of 1 leave the quantity 9007199254740992, not the sum: the sum is no double
  and is rounded to the even neighbour.
\<close>

theorem cart_add_accumulates_counterexample:
  "Option.bind (add_all example_db ''ann@x.com'' 50 [9007199254740992, 1])
       (\<lambda>s'. carts s' ''ann@x.com'') =
     Some [\<lparr>productId = 10, quantity = 3\<rparr>, \<lparr>productId = 20, quantity = 1\<rparr>,
           \<lparr>productId = 50, quantity = 9007199254740992\<rparr>] \<and>
   sum_list [9007199254740992, 1 :: real] = 9007199254740993 \<and>
   (9007199254740992 :: real) \<noteq> 9007199254740993"
  unfolding example_add_all_tie by (simp add: example_ann_cart_def)

text \<open>
  C4. A checkout with an e-mail, a complete delivery address and a payment method, for a
  user who has no cart or an empty cart, is answered 400 ``Cart is empty'' and changes
  nothing.
\<close>

theorem checkout_empty_cart:
  assumes "e \<noteq> []" "pm \<noteq> []" "Address_validate a"
    and "carts s e = None \<or> carts s e = Some []"
  shows "post_orders now s (Some e) (Some a) (Some pm) = (s, Json 400 ''Cart is empty'')"
  using assms by (auto simp: post_orders_def Address_validate_def)

theorem checkout_empty_cart_witness:
  "carts example_db ''cy@x.com'' = None \<and>
   post_orders 7 example_db (Some ''cy@x.com'') (Some example_address) (Some ''card'') =
     (example_db, Json 400 ''Cart is empty'')"
proof -
  have c: "carts example_db ''cy@x.com'' = None \<or> carts example_db ''cy@x.com'' = Some []"
    by (simp add: example_carts)
  have e: "''cy@x.com'' \<noteq> []" "''card'' \<noteq> []"
    by simp_all
  from checkout_empty_cart [OF e example_address_valid c, of 7] show ?thesis
    by (simp add: example_carts)
qed



text \<open>
  C6. An add request whose quantity is exactly 0 is handled as one that leaves the quantity
  out: \<^verbatim>\<open>quantity || 1\<close> turns the 0 into 1 before the check \<^verbatim>\<open>quantityToAdd <= 0\<close>, so the
  request is not rejected.
\<close>

theorem cart_add_zero_quantity:
  "post_cart_add s e p (Some 0) = post_cart_add s e p None"
  by (cases e; cases p) (simp_all add: post_cart_add_def)

text \<open>
  On the example database the request with quantity 0 is answered 200, and the quantity
  of the lamp in Ann's cart grows from 3 to 4.
\<close>

theorem cart_add_zero_quantity_witness:
  "statusCode (snd (post_cart_add example_db (Some ''ann@x.com'') (Some 10) (Some 0))) = 200 \<and>
   carts example_db ''ann@x.com'' =
     Some [\<lparr>productId = 10, quantity = 3\<rparr>, \<lparr>productId = 20, quantity = 1\<rparr>] \<and>
   carts (fst (post_cart_add example_db (Some ''ann@x.com'') (Some 10) (Some 0))) ''ann@x.com'' =
     Some [\<lparr>productId = 10, quantity = 4\<rparr>, \<lparr>productId = 20, quantity = 1\<rparr>]"
proof -
  have "post_cart_add example_db (Some ''ann@x.com'') (Some 10) None =
     (example_db\<lparr>carts := (carts example_db)(''ann@x.com'' \<mapsto>
         [\<lparr>productId = 10, quantity = 4\<rparr>, \<lparr>productId = 20, quantity = 1\<rparr>])\<rparr>,
      Json 200 ''Product added to cart successfully'')"
    by (simp add: post_cart_add_def Cart_save_def Cart_validate_def example_defs
        example_fl_exact)
  with cart_add_zero_quantity [of example_db "Some ''ann@x.com''" "Some 10"] show ?thesis
    by (simp add: example_carts example_ann_cart_def)
qed

text \<open>
  C7, as the code has it. A checkout whose payment method is present but not one of the
  three recognized values creates no order and changes nothing. When the request is
  complete and the cart is not empty it is answered 500 ``Failed to create order'': the
  enum validator of the schema throws inside \<^verbatim>\<open>Order.create\<close> (or a dangling product
  throws before). Otherwise it is answered with the 400 of the earlier check that fails:
  a missing e-mail or address, an incomplete address, an absent or empty cart.
\<close>

theorem checkout_unrecognized_payment:
  assumes "pm \<noteq> []" "\<not> List.member paymentMethods pm"
    and "post_orders now s e a (Some pm) = (s', r)"
  shows "s' = s \<and>
         r = (if falsy e \<or> a = None then
                Json 400 ''User email, delivery address, and payment method are required''
              else if \<not> Address_validate (the a) then
                Json 400 ''Complete delivery address is required''
              else if carts s (the e) = None \<or> carts s (the e) = Some [] then
                Json 400 ''Cart is empty''
              else Json 500 ''Failed to create order'')"
  using assms
  by (auto simp: post_orders_def Address_validate_def Order_create_def Order_validate_def
      falsy_def split: option.splits sum.splits if_splits prod.splits)

theorem checkout_unrecognized_payment_witness:
  "\<not> List.member paymentMethods ''bitcoin'' \<and>
   carts example_db ''ann@x.com'' =
     Some [\<lparr>productId = 10, quantity = 3\<rparr>, \<lparr>productId = 20, quantity = 1\<rparr>] \<and>
   Address_validate example_address \<and>
   fst (post_orders 7 example_db (Some ''ann@x.com'') (Some example_address) (Some ''bitcoin'')) =
     example_db \<and>
   snd (post_orders 7 example_db (Some ''ann@x.com'') (Some example_address) (Some ''bitcoin'')) =
     Json 500 ''Failed to create order''"
proof -
  have m: "''bitcoin'' \<noteq> []" "\<not> List.member paymentMethods ''bitcoin''"
    by (simp_all add: paymentMethods_def)
  from checkout_unrecognized_payment [OF m example_checkout_bitcoin] m(2)
    example_address_valid
  show ?thesis
    by (simp add: example_checkout_bitcoin example_carts example_ann_cart_def)
qed

text \<open>
  C7, as the claim states it, fails: Ann's checkout with the payment method ``bitcoin'' is
  answered 500, not 400.
\<close>

theorem checkout_unrecognized_payment_counterexample:
  "\<not> List.member paymentMethods ''bitcoin'' \<and>
   statusCode (snd (post_orders 7 example_db (Some ''ann@x.com'') (Some example_address)
     (Some ''bitcoin''))) = 500 \<and>
   statusCode (snd (post_orders 7 example_db (Some ''ann@x.com'') (Some example_address)
     (Some ''bitcoin''))) \<noteq> 400"
  by (simp add: example_checkout_bitcoin paymentMethods_def)

text \<open>
  C8, as the code has it. Every admin-gated mutating route (creating, updating and
  deleting a product, updating and deleting a user, updating the status of an order),
  called with the e-mail of no account or of an account that is not an administrator,
  answers 403 ``Admin access required'' in both cases and changes nothing; a route with
  an id answers 400 first when the id is malformed. The middleware \<^verbatim>\<open>checkAdmin\<close>, which no
  route uses, is what tells the two cases apart: 404 for no account, 403 for an account
  that is not an administrator.
\<close>

theorem admin_gate_forbidden:
  assumes "User_findOne s (toLowerCase e) = None \<or>
           (\<exists>u. User_findOne s (toLowerCase e) = Some u \<and> role u \<noteq> ''admin'')"
  shows "post_admin_products newId s (Some e) b = (s, Json 403 ''Admin access required'') \<and>
         put_admin_products pupd s id' (Some e) b =
           (s, if id' = None then Json 400 ''Invalid product ID format''
               else Json 403 ''Admin access required'') \<and>
         delete_admin_products s id' (Some e) =
           (s, if id' = None then Json 400 ''Invalid product ID format''
               else Json 403 ''Admin access required'') \<and>
         put_admin_users uupd s id' (Some e) name' userEmail role' =
           (s, if id' = None then Json 400 ''Invalid user ID format''
               else Json 403 ''Admin access required'') \<and>
         delete_admin_users s id' (Some e) =
           (s, if id' = None then Json 400 ''Invalid user ID format''
               else Json 403 ''Admin access required'') \<and>
         put_admin_orders s id' (Some e) st =
           (s, if id' = None then Json 400 ''Invalid order ID format''
               else Json 403 ''Admin access required'') \<and>
         (e \<noteq> [] \<longrightarrow>
            checkAdmin s (Some e) =
              Inl (if User_findOne s (toLowerCase e) = None then Json 404 ''User not found''
                   else Json 403 ''Admin access required''))"
proof (intro conjI)
  show "post_admin_products newId s (Some e) b = (s, Json 403 ''Admin access required'')"
    using assms by (auto simp: post_admin_products_def)
  show "put_admin_products pupd s id' (Some e) b =
           (s, if id' = None then Json 400 ''Invalid product ID format''
               else Json 403 ''Admin access required'')"
    using assms by (cases id') (auto simp: put_admin_products_def)
  show "delete_admin_products s id' (Some e) =
           (s, if id' = None then Json 400 ''Invalid product ID format''
               else Json 403 ''Admin access required'')"
    using assms by (cases id') (auto simp: delete_admin_products_def)
  show "put_admin_users uupd s id' (Some e) name' userEmail role' =
           (s, if id' = None then Json 400 ''Invalid user ID format''
               else Json 403 ''Admin access required'')"
    using assms by (cases id') (auto simp: put_admin_users_def)
  show "delete_admin_users s id' (Some e) =
           (s, if id' = None then Json 400 ''Invalid user ID format''
               else Json 403 ''Admin access required'')"
    using assms by (cases id') (auto simp: delete_admin_users_def)
  show "put_admin_orders s id' (Some e) st =
           (s, if id' = None then Json 400 ''Invalid order ID format''
               else Json 403 ''Admin access required'')"
    using assms by (cases id') (auto simp: put_admin_orders_def)
  show "e \<noteq> [] \<longrightarrow>
            checkAdmin s (Some e) =
              Inl (if User_findOne s (toLowerCase e) = None then Json 404 ''User not found''
                   else Json 403 ''Admin access required'')"
    using assms by (auto simp: checkAdmin_def falsy_def)
qed

theorem admin_gate_forbidden_witness:
  "map_option role (User_findOne example_db (toLowerCase ''ann@x.com'')) = Some ''user'' \<and>
   post_admin_products 40 example_db (Some ''ann@x.com'') example_product_fields =
     (example_db, Json 403 ''Admin access required'') \<and>
   put_admin_products example_product_update example_db (Some 10) (Some ''ann@x.com'')
       example_product_fields =
     (example_db, Json 403 ''Admin access required'') \<and>
   delete_admin_products example_db (Some 10) (Some ''ann@x.com'') =
     (example_db, Json 403 ''Admin access required'') \<and>
   put_admin_users example_user_update example_db (Some 200) (Some ''ann@x.com'') None None
       (Some ''admin'') =
     (example_db, Json 403 ''Admin access required'') \<and>
   delete_admin_users example_db (Some 100) (Some ''ann@x.com'') =
     (example_db, Json 403 ''Admin access required'') \<and>
   put_admin_orders example_db (Some 0) (Some ''ann@x.com'') ''shipped'' =
     (example_db, Json 403 ''Admin access required'') \<and>
   checkAdmin example_db (Some ''ann@x.com'') = Inl (Json 403 ''Admin access required'')"
proof -
  have u: "User_findOne example_db (toLowerCase ''ann@x.com'') = None \<or>
      (\<exists>u. User_findOne example_db (toLowerCase ''ann@x.com'') = Some u \<and> role u \<noteq> ''admin'')"
    by (simp add: example_lower example_users)
  from admin_gate_forbidden [OF u, of 40 example_product_fields example_product_update
      "Some 10" example_user_update None None "Some ''admin''" "''shipped''"]
    admin_gate_forbidden [OF u, of 40 example_product_fields example_product_update
      "Some 200" example_user_update None None "Some ''admin''" "''shipped''"]
    admin_gate_forbidden [OF u, of 40 example_product_fields example_product_update
      "Some 100" example_user_update None None "Some ''admin''" "''shipped''"]
    admin_gate_forbidden [OF u, of 40 example_product_fields example_product_update
      "Some 0" example_user_update None None "Some ''admin''" "''shipped''"]
  show ?thesis
    by (simp add: example_lower example_users)
qed

text \<open>
  C8, as the claim states it, fails: with the e-mail of no account the order status route
  answers 403, not 404.
\<close>

theorem admin_gate_not_found_counterexample:
  "User_findOne example_db (toLowerCase ''nobody@x.com'') = None \<and>
   statusCode (snd (put_admin_orders example_db (Some 0) (Some ''nobody@x.com'') ''shipped'')) = 403 \<and>
   statusCode (snd (put_admin_orders example_db (Some 0) (Some ''nobody@x.com'') ''shipped'')) \<noteq> 404"
  by (simp add: put_admin_orders_def example_lower example_users)

text \<open>
  C9, as the code has it. A checkout on a cart one of whose items refers to a product that
  does not exist creates no order and leaves the cart as it is: the database is unchanged.
  When the request is complete (e-mail, the six fields of the address and payment method
  present) it is answered 500 ``Failed to create order'', not 400; a request with a missing
  field is answered 400 by the checks of the request, which run before the cart is read.
\<close>

theorem checkout_dangling_reference:
  assumes "carts s e = Some cart"
    and "\<exists>it\<in>set cart. products s (productId it) = None"
    and "post_orders now s (Some e) a pm = (s', r)"
  shows "s' = s \<and>
         r = (if e = [] \<or> a = None \<or> falsy pm then
                Json 400 ''User email, delivery address, and payment method are required''
              else if \<not> Address_validate (the a) then
                Json 400 ''Complete delivery address is required''
              else Json 500 ''Failed to create order'')"
proof -
  from assms(2) have n: "cart \<noteq> []" by auto
  from orderItems_dangling [OF assms(2), of 0]
  have d: "orderItems 0 (populate s cart) = Inl TypeError" .
  from assms(1,3) n d show ?thesis
    by (auto simp: post_orders_def Address_validate_def falsy_def split: option.splits)
qed

theorem checkout_dangling_reference_witness:
  "carts example_db ''bob@x.com'' = Some example_bob_cart \<and>
   90 \<in> productId ` set example_bob_cart \<and> products example_db 90 = None \<and>
   Address_validate example_address \<and>
   post_orders 7 example_db (Some ''bob@x.com'') (Some example_address) (Some ''card'') =
     (example_db, Json 500 ''Failed to create order'')"
proof -
  note c = example_carts(2)
  have d: "\<exists>it\<in>set example_bob_cart. products example_db (productId it) = None"
    by (simp add: example_bob_cart_def example_db_def)
  have p: "90 \<in> productId ` set example_bob_cart" "products example_db 90 = None"
    by (simp_all add: example_bob_cart_def example_db_def)
  obtain s' r where o: "post_orders 7 example_db (Some ''bob@x.com'') (Some example_address)
      (Some ''card'') = (s', r)"
    by (cases "post_orders 7 example_db (Some ''bob@x.com'') (Some example_address)
      (Some ''card'')")
  from checkout_dangling_reference [OF c d o] o c p example_address_valid show ?thesis
    by (simp add: falsy_def)
qed

text \<open>
  C9, as the claim states it, fails: Bob's checkout on his cart with the dangling
  reference, with the phone number of the address missing, is answered with the
  validation error 400, not with 500.
\<close>

theorem checkout_dangling_reference_counterexample:
  "carts example_db ''bob@x.com'' = Some example_bob_cart \<and>
   90 \<in> productId ` set example_bob_cart \<and> products example_db 90 = None \<and>
   post_orders 7 example_db (Some ''bob@x.com'') (Some (example_address\<lparr>phone := []\<rparr>))
       (Some ''card'') =
     (example_db, Json 400 ''Complete delivery address is required'')"
  by (simp add: post_orders_def example_carts example_bob_cart_def example_address_def)
     (simp add: example_db_def)

text \<open>
  C10. A successful order status update (status 200) changes the status of the order with
  the given id and nothing else: its items, total, delivery address, payment method, user
  e-mail and order date are as before, and so are all other orders and the other
  collections.
\<close>

theorem order_status_update_frame:
  assumes "put_admin_orders s id' email' st = (s', r)" "statusCode r = 200"
  shows "\<exists>i. id' = Some i \<and> i < length (orders s) \<and> length (orders s') = length (orders s) \<and>
           response_order r = Some (orders s' ! i) \<and>
           status (orders s' ! i) = st \<and>
           order_items (orders s' ! i) = order_items (orders s ! i) \<and>
           totalAmount (orders s' ! i) = totalAmount (orders s ! i) \<and>
           deliveryAddress (orders s' ! i) = deliveryAddress (orders s ! i) \<and>
           paymentMethod (orders s' ! i) = paymentMethod (orders s ! i) \<and>
           order_userEmail (orders s' ! i) = order_userEmail (orders s ! i) \<and>
           orderDate (orders s' ! i) = orderDate (orders s ! i) \<and>
           (\<forall>j<length (orders s). j \<noteq> i \<longrightarrow> orders s' ! j = orders s ! j) \<and>
           products s' = products s \<and> users s' = users s \<and> carts s' = carts s"
  using assms
  by (auto simp: put_admin_orders_def Let_def split: option.splits if_splits)

theorem order_status_update_frame_witness:
  "statusCode (snd (put_admin_orders example_db (Some 0) (Some ''Admin@X.com'') ''shipped'')) = 200 \<and>
   orders (fst (put_admin_orders example_db (Some 0) (Some ''Admin@X.com'') ''shipped'')) =
     [example_order\<lparr>status := ''shipped''\<rparr>] \<and>
   totalAmount (example_order\<lparr>status := ''shipped''\<rparr>) = 11"
proof -
  have ok: "statusCode (JsonOrder 200 ''Order status updated successfully''
      (example_order\<lparr>status := ''shipped''\<rparr>)) = 200"
    by simp
  have t: "totalAmount (example_order\<lparr>status := ''shipped''\<rparr>) = 11"
    by (simp add: example_order_def)
  from order_status_update_frame [OF example_status_update ok] t show ?thesis
    by (simp add: example_status_update)
qed

end
